theory Spec2Isabelle
  imports Complex_Main
begin

section \<open>Conventions of the embedding\<close>

text \<open>
  The trading bot computes with Python floats (the annotations of every function say
  \<open>float\<close>). A float is modelled as a \<^typ>\<open>real\<close>: rounding is not modelled. What a
  real cannot say is written out:
  \<^item> a true division whose divisor is zero raises \<open>ZeroDivisionError\<close>, as it does
    for Python floats (between numpy scalars it would yield NaN or an infinity and a
    warning instead);
  \<^item> a pandas or numpy computation that yields NaN or an infinity (the minimum of an
    empty column, an array division by zero) is the outcome \<open>NonFinite\<close>. It is not a
    Python exception: it marks a result that lies outside the real numbers;
  \<^item> \<open>iloc[-1]\<close> on an empty frame raises \<open>IndexError\<close>, a span below 1 given to
    \<open>ewm\<close> raises \<open>ValueError\<close>.
  A result of type \<open>error + 'a\<close> is \<open>Inl\<close> for these outcomes and \<open>Inr\<close> for a
  normal return.
\<close>

datatype error = ZeroDivisionError | IndexError | ValueError | NonFinite

text \<open>True division of Python floats.\<close>

definition truediv :: "real \<Rightarrow> real \<Rightarrow> error + real" where
  "truediv a b = (if b = 0 then Inl ZeroDivisionError else Inr (a / b))"

text \<open>
  A \<open>datetime\<close>: the proleptic ordinal of its calendar day and the second within the
  day. \<open>date\<close> is the method \<open>datetime.date()\<close>; a \<open>datetime.date\<close> value is the ordinal.
\<close>

record datetime =
  day_ordinal :: int
  second_of_day :: nat

definition date :: "datetime \<Rightarrow> int" where
  "date t = day_ordinal t"

section \<open>config.py\<close>

definition EMA_SHORT :: int where "EMA_SHORT = 20"
definition EMA_LONG :: int where "EMA_LONG = 50"
definition ENTRY_PRICE_TOLERANCE :: real where "ENTRY_PRICE_TOLERANCE = 1 / 100"
definition RISK_REWARD_RATIO :: real where "RISK_REWARD_RATIO = 2"
definition TRAILING_STOP_PERCENT :: real where "TRAILING_STOP_PERCENT = 1 / 100"
definition RISK_PER_TRADE :: real where "RISK_PER_TRADE = 1 / 100"
definition MAX_POSITIONS :: nat where "MAX_POSITIONS = 3"
definition MAX_DAILY_LOSS :: real where "MAX_DAILY_LOSS = 3 / 100"
definition INITIAL_BALANCE :: real where "INITIAL_BALANCE = 10000"

section \<open>indicators.py\<close>

definition is_uptrend :: "real \<Rightarrow> real \<Rightarrow> bool" where
  "is_uptrend ema_short ema_long = (ema_short > ema_long)"

definition is_price_near_ema :: "real \<Rightarrow> real \<Rightarrow> real \<Rightarrow> bool" where
  "is_price_near_ema price ema tolerance =
     (let upper_bound = ema * (1 + tolerance);
          lower_bound = ema * (1 - tolerance)
      in lower_bound \<le> price \<and> price \<le> upper_bound)"

text \<open>
  A candle is a row of the data frame; a frame is the list of its rows in index order.
  The column \<open>open\<close> is named \<open>open_price\<close> here. \<open>add_emas\<close> returns rows with
  two more columns.
\<close>

record candle =
  timestamp :: datetime
  open_price :: real
  high :: real
  low :: real
  close :: real
  volume :: real

record candle_ema = candle +
  ema_short :: real
  ema_long :: real

text \<open>
  Modelled from the spec: \<open>Series.ewm(span=period, adjust=False).mean()\<close> is code of
  the pandas library, which is not part of the repository. The recurrence is the one the
  specification gives for \<open>calculate_ema\<close> (and the one pandas documents for
  \<open>adjust=False\<close>): the first value is the first price, and each later value is
  \<open>\<alpha>\<cdot>price + (1 - \<alpha>)\<cdot>previous\<close>. \<open>ewm_from\<close> carries the previous value along
  the series, as an incremental computation does. pandas refuses a span below 1.
\<close>

fun ewm_from :: "real \<Rightarrow> real \<Rightarrow> real list \<Rightarrow> real list" where
  "ewm_from \<alpha> prev [] = []"
| "ewm_from \<alpha> prev (x # xs) = (let y = (1 - \<alpha>) * prev + \<alpha> * x in y # ewm_from \<alpha> y xs)"

definition ewm_mean :: "int \<Rightarrow> real list \<Rightarrow> error + real list" where
  "ewm_mean spn xs =
     (if spn < 1 then Inl ValueError
      else let \<alpha> = 2 / (real_of_int spn + 1)
           in case xs of [] \<Rightarrow> Inr [] | x # rest \<Rightarrow> Inr (x # ewm_from \<alpha> x rest))"

definition calculate_ema :: "real list \<Rightarrow> int \<Rightarrow> error + real list" where
  "calculate_ema data period = ewm_mean period data"

definition with_emas :: "candle \<Rightarrow> real \<Rightarrow> real \<Rightarrow> candle_ema" where
  "with_emas c s l =
     \<lparr>timestamp = timestamp c, open_price = open_price c, high = high c, low = low c,
      close = close c, volume = volume c, ema_short = s, ema_long = l\<rparr>"

definition add_emas :: "candle list \<Rightarrow> int \<Rightarrow> int \<Rightarrow> error + candle_ema list" where
  "add_emas df short_period long_period =
     (case calculate_ema (map close df) short_period of
        Inl e \<Rightarrow> Inl e
      | Inr es \<Rightarrow>
          (case calculate_ema (map close df) long_period of
             Inl e \<Rightarrow> Inl e
           | Inr el \<Rightarrow> Inr (map (\<lambda>(c, s, l). with_emas c s l) (zip df (zip es el)))))"

text \<open>
  \<open>iloc[k:]\<close> on a column: a negative start counts from the end and is clipped at the
  first row; \<open>iloc[-0:]\<close> is the whole column.
\<close>

definition iloc_from :: "int \<Rightarrow> 'a list \<Rightarrow> 'a list" where
  "iloc_from k xs =
     (if k < 0 then drop (nat (max 0 (int (length xs) + k))) xs else drop (nat k) xs)"

text \<open>The minimum of a column; pandas answers NaN for an empty one (\<open>None\<close> here).\<close>

definition series_min :: "real list \<Rightarrow> real option" where
  "series_min xs = (case xs of [] \<Rightarrow> None | x # rest \<Rightarrow> Some (fold min rest x))"

definition find_swing_low :: "('a candle_scheme) list \<Rightarrow> int \<Rightarrow> real option" where
  "find_swing_low df lookback =
     (let lookback1 = (if int (length df) < lookback then int (length df) else lookback)
      in series_min (iloc_from (- lookback1) (map low df)))"


section \<open>risk_manager.py\<close>

text \<open>
  The halt reason is a string in the source. The one built by
  \<open>f"Daily loss limit reached: {daily_loss_percent*100:.2f}%"\<close> is kept as its
  parts, the number before formatting, since the rounding of a float to two decimals is
  not modelled.
\<close>

datatype reason = NoReason | DailyLossLimitReached real | BalanceDepleted

record RiskManager =
  initial_balance :: real
  current_balance :: real
  daily_start_balance :: real
  daily_pnl :: real
  current_date :: int
  trading_halted :: bool
  halt_reason :: reason

text \<open>
  \<open>date.today()\<close> reads the wall clock. Every operation that reads it takes the value
  read, \<open>today\<close>, as its first argument.
\<close>

definition RiskManager_init :: "int \<Rightarrow> real \<Rightarrow> RiskManager" where
  "RiskManager_init today balance =
     \<lparr>initial_balance = balance, current_balance = balance, daily_start_balance = balance,
      daily_pnl = 0, current_date = today, trading_halted = False, halt_reason = NoReason\<rparr>"

definition reset_daily_tracking :: "int \<Rightarrow> RiskManager \<Rightarrow> RiskManager" where
  "reset_daily_tracking today rm =
     rm\<lparr>current_date := today, daily_start_balance := current_balance rm, daily_pnl := 0,
        trading_halted := False, halt_reason := NoReason\<rparr>"

definition check_daily_loss_limit :: "RiskManager \<Rightarrow> error + (bool \<times> RiskManager)" where
  "check_daily_loss_limit rm =
     (case truediv (daily_pnl rm) (daily_start_balance rm) of
        Inl e \<Rightarrow> Inl e
      | Inr daily_loss_percent \<Rightarrow>
          if daily_loss_percent \<le> - MAX_DAILY_LOSS then
            Inr (True, rm\<lparr>trading_halted := True,
                          halt_reason := DailyLossLimitReached (daily_loss_percent * 100)\<rparr>)
          else Inr (False, rm))"

definition update_balance :: "int \<Rightarrow> RiskManager \<Rightarrow> real \<Rightarrow> datetime \<Rightarrow> error + RiskManager" where
  "update_balance today rm pnl current_time =
     (let rm1 = (if date current_time \<noteq> current_date rm then reset_daily_tracking today rm
                 else rm);
          rm2 = rm1\<lparr>current_balance := current_balance rm1 + pnl\<rparr>;
          rm3 = rm2\<lparr>daily_pnl := daily_pnl rm2 + pnl\<rparr>
      in case check_daily_loss_limit rm3 of
           Inl e \<Rightarrow> Inl e
         | Inr (_, rm4) \<Rightarrow> Inr rm4)"

definition can_trade :: "RiskManager \<Rightarrow> bool \<times> reason" where
  "can_trade rm =
     (if trading_halted rm then (False, halt_reason rm)
      else if current_balance rm \<le> 0 then (False, BalanceDepleted)
      else (True, NoReason))"

definition get_risk_amount :: "RiskManager \<Rightarrow> real" where
  "get_risk_amount rm = current_balance rm * RISK_PER_TRADE"


section \<open>strategy.py: Position\<close>

record Position =
  entry_price :: real
  quantity :: real
  stop_loss :: real
  take_profit :: real
  entry_time :: datetime
  trailing_stop_active :: bool
  highest_price :: real

definition Position_init :: "real \<Rightarrow> real \<Rightarrow> real \<Rightarrow> real \<Rightarrow> datetime \<Rightarrow> Position" where
  "Position_init ep q sl tp et =
     \<lparr>entry_price = ep, quantity = q, stop_loss = sl, take_profit = tp, entry_time = et,
      trailing_stop_active = False, highest_price = ep\<rparr>"

text \<open>
  \<open>update_trailing_stop\<close> mutates the position; the model returns the new one. The three
  assignments are kept in the source's order: the new stop is computed from the
  high-water mark just updated.
\<close>

definition update_trailing_stop :: "Position \<Rightarrow> real \<Rightarrow> real \<Rightarrow> Position" where
  "update_trailing_stop p current_price trailing_percent =
     (if current_price > entry_price p then
        let p1 = p\<lparr>trailing_stop_active := True\<rparr>;
            p2 = p1\<lparr>highest_price := max (highest_price p1) current_price\<rparr>;
            new_stop = highest_price p2 * (1 - trailing_percent)
        in p2\<lparr>stop_loss := max (stop_loss p2) new_stop\<rparr>
      else p)"

definition should_exit :: "Position \<Rightarrow> real \<Rightarrow> bool \<times> string" where
  "should_exit p current_price =
     (if current_price \<le> stop_loss p then (True, ''Stop Loss'')
      else if current_price \<ge> take_profit p then (True, ''Take Profit'')
      else (False, ''''))"

definition get_pnl :: "Position \<Rightarrow> real \<Rightarrow> real" where
  "get_pnl p current_price = (current_price - entry_price p) * quantity p"

text \<open>
  A sequence of \<open>update_trailing_stop\<close> calls on one position, each with its own price
  and trailing percentage: the list of the states the position goes through, the
  starting state first.
\<close>

fun trailing_trace :: "Position \<Rightarrow> (real \<times> real) list \<Rightarrow> Position list" where
  "trailing_trace p [] = [p]"
| "trailing_trace p ((price, pct) # calls) =
     p # trailing_trace (update_trailing_stop p price pct) calls"

section \<open>strategy.py: TradingStrategy\<close>

text \<open>
  A closed position is a dictionary in the source. Its keys \<open>entry_price\<close>,
  \<open>quantity\<close> and \<open>entry_time\<close> carry the prefix \<open>trade_\<close> here, since a position has
  fields of the same names.
\<close>

record trade =
  trade_entry_price :: real
  exit_price :: real
  trade_quantity :: real
  pnl :: real
  pnl_percent :: real
  trade_entry_time :: datetime
  exit_time :: datetime
  exit_reason :: string

record TradingStrategy =
  positions :: "Position list"
  closed_positions :: "trade list"

definition TradingStrategy_init :: TradingStrategy where
  "TradingStrategy_init = \<lparr>positions = [], closed_positions = []\<rparr>"

definition can_open_position :: "TradingStrategy \<Rightarrow> bool" where
  "can_open_position s = (length (positions s) < MAX_POSITIONS)"

text \<open>\<open>df.iloc[-1]\<close> raises on an empty frame.\<close>

definition iloc_last :: "'a list \<Rightarrow> error + 'a" where
  "iloc_last df = (if df = [] then Inl IndexError else Inr (last df))"

definition check_entry_signal :: "TradingStrategy \<Rightarrow> candle_ema list \<Rightarrow> error + bool" where
  "check_entry_signal s df =
     (if int (length df) < EMA_LONG then Inr False
      else case iloc_last df of
             Inl e \<Rightarrow> Inl e
           | Inr latest \<Rightarrow>
               Inr (is_uptrend (ema_short latest) (ema_long latest)
                    \<and> is_price_near_ema (close latest) (ema_short latest) ENTRY_PRICE_TOLERANCE))"

definition calculate_position_size :: "real \<Rightarrow> real \<Rightarrow> real \<Rightarrow> real \<Rightarrow> real" where
  "calculate_position_size entry stop account_balance risk_percent =
     (let risk_amount = account_balance * risk_percent;
          price_diff = \<bar>entry - stop\<bar>
      in if price_diff = 0 then 0 else risk_amount / price_diff)"

text \<open>
  \<open>open_position\<close> returns the position (or \<open>None\<close>) and the strategy with the position
  registered. On an empty frame the swing low is NaN and the source goes on to register
  a position whose numbers are NaN; that is the outcome \<open>NonFinite\<close>.
\<close>

definition open_position ::
  "TradingStrategy \<Rightarrow> real \<Rightarrow> real \<Rightarrow> real \<Rightarrow> ('a candle_scheme) list \<Rightarrow> datetime
     \<Rightarrow> error + (Position option \<times> TradingStrategy)" where
  "open_position s entry account_balance risk_percent df etime =
     (if \<not> can_open_position s then Inr (None, s)
      else case find_swing_low df 10 of
             None \<Rightarrow> Inl NonFinite
           | Some swing \<Rightarrow>
               let stop = (if swing \<ge> entry then entry * (98 / 100) else swing);
                   risk = entry - stop;
                   target = entry + risk * RISK_REWARD_RATIO;
                   qty = calculate_position_size entry stop account_balance risk_percent
               in if qty \<le> 0 then Inr (None, s)
                  else let position = Position_init entry qty stop target etime
                       in Inr (Some position, s\<lparr>positions := positions s @ [position]\<rparr>))"

text \<open>
  The loop of \<open>update_positions\<close> over the open positions, with the lists
  \<open>closed\<close> (here \<open>closed_now\<close>), \<open>remaining_positions\<close> and
  \<open>self.closed_positions\<close> as accumulators. The local \<open>pnl\<close> is \<open>gain\<close> here. The
  percentage of a closed position divides by \<open>entry_price \<cdot> quantity\<close>.
\<close>

fun update_positions_loop ::
  "real \<Rightarrow> datetime \<Rightarrow> Position list \<Rightarrow> trade list \<Rightarrow> Position list \<Rightarrow> trade list
     \<Rightarrow> error + (trade list \<times> Position list \<times> trade list)" where
  "update_positions_loop price now [] closed_now remaining cps = Inr (closed_now, remaining, cps)"
| "update_positions_loop price now (p # ps) closed_now remaining cps =
     (let p1 = update_trailing_stop p price TRAILING_STOP_PERCENT;
          (exit_now, why) = should_exit p1 price
      in if exit_now then
           let gain = get_pnl p1 price
           in case truediv gain (entry_price p1 * quantity p1) of
                Inl e \<Rightarrow> Inl e
              | Inr ratio \<Rightarrow>
                  let closed_position =
                        \<lparr>trade_entry_price = entry_price p1, exit_price = price,
                         trade_quantity = quantity p1, pnl = gain, pnl_percent = ratio * 100,
                         trade_entry_time = entry_time p1, exit_time = now, exit_reason = why\<rparr>
                  in update_positions_loop price now ps (closed_now @ [closed_position]) remaining
                       (cps @ [closed_position])
         else update_positions_loop price now ps closed_now (remaining @ [p1]) cps)"

definition update_positions ::
  "TradingStrategy \<Rightarrow> real \<Rightarrow> datetime \<Rightarrow> error + (trade list \<times> TradingStrategy)" where
  "update_positions s price now =
     (case update_positions_loop price now (positions s) [] [] (closed_positions s) of
        Inl e \<Rightarrow> Inl e
      | Inr (closed_now, remaining, cps) \<Rightarrow>
          Inr (closed_now, s\<lparr>closed_positions := cps, positions := remaining\<rparr>))"


section \<open>backtester.py\<close>

text \<open>
  The rows of \<open>self.data\<close> are plain candles until \<open>run\<close> replaces the frame by the
  one \<open>add_emas\<close> returns, so the type of the rows is a parameter of the record.
  The attribute \<open>initial_balance\<close> is \<open>bt_initial_balance\<close> here (the risk manager has
  a field of the same name).
\<close>

record 'r Backtester =
  data :: "'r list"
  bt_initial_balance :: real
  strategy :: TradingStrategy
  risk_manager :: RiskManager
  trades_log :: "trade list"
  equity_curve :: "real list"

definition Backtester_init :: "int \<Rightarrow> candle list \<Rightarrow> real \<Rightarrow> candle Backtester" where
  "Backtester_init today df balance =
     \<lparr>data = df, bt_initial_balance = balance, strategy = TradingStrategy_init,
      risk_manager = RiskManager_init today balance, trades_log = [], equity_curve = []\<rparr>"

definition set_data :: "'a Backtester \<Rightarrow> 'b list \<Rightarrow> 'b Backtester" where
  "set_data bt rows =
     \<lparr>data = rows, bt_initial_balance = bt_initial_balance bt, strategy = strategy bt,
      risk_manager = risk_manager bt, trades_log = trades_log bt,
      equity_curve = equity_curve bt\<rparr>"

text \<open>The loop of \<open>run\<close> over the positions closed in one tick.\<close>

fun report_closed ::
  "int \<Rightarrow> datetime \<Rightarrow> trade list \<Rightarrow> 'r Backtester \<Rightarrow> error + 'r Backtester" where
  "report_closed today now [] bt = Inr bt"
| "report_closed today now (c # cs) bt =
     (case update_balance today (risk_manager bt) (pnl c) now of
        Inl e \<Rightarrow> Inl e
      | Inr rm \<Rightarrow>
          report_closed today now cs (bt\<lparr>risk_manager := rm, trades_log := trades_log bt @ [c]\<rparr>))"

text \<open>
  One pass of the body of the loop \<open>for i in range(len(self.data))\<close>; \<open>iloc[i]\<close>
  raises outside the frame, which the loop never reaches. The wall-clock date \<open>today\<close>
  is taken to be the same for the whole run.
\<close>

definition tick :: "int \<Rightarrow> nat \<Rightarrow> candle_ema Backtester \<Rightarrow> error + candle_ema Backtester" where
  "tick today i bt =
     (if i \<ge> length (data bt) then Inl IndexError else
      let current_candle = data bt ! i;
          current_price = close current_candle;
          current_time = timestamp current_candle;
          historical_df = take (i + 1) (data bt)
      in case update_positions (strategy bt) current_price current_time of
           Inl e \<Rightarrow> Inl e
         | Inr (closed_now, strat1) \<Rightarrow>
             (case report_closed today current_time closed_now (bt\<lparr>strategy := strat1\<rparr>) of
                Inl e \<Rightarrow> Inl e
              | Inr bt1 \<Rightarrow>
                  let (allowed, why) = can_trade (risk_manager bt1);
                      entered =
                        (if allowed \<and> int i \<ge> EMA_LONG then
                           (case check_entry_signal (strategy bt1) historical_df of
                              Inl e \<Rightarrow> Inl e
                            | Inr signal \<Rightarrow>
                                if signal then
                                  (case open_position (strategy bt1) current_price
                                          (current_balance (risk_manager bt1)) RISK_PER_TRADE
                                          historical_df current_time of
                                     Inl e \<Rightarrow> Inl e
                                   | Inr (position, strat2) \<Rightarrow> Inr (bt1\<lparr>strategy := strat2\<rparr>))
                                else Inr bt1)
                         else Inr bt1)
                  in case entered of
                       Inl e \<Rightarrow> Inl e
                     | Inr bt2 \<Rightarrow>
                         Inr (bt2\<lparr>equity_curve :=
                                    equity_curve bt2 @ [current_balance (risk_manager bt2)]\<rparr>)))"

fun run_ticks :: "int \<Rightarrow> nat list \<Rightarrow> candle_ema Backtester \<Rightarrow> error + candle_ema Backtester" where
  "run_ticks today [] bt = Inr bt"
| "run_ticks today (i # is) bt =
     (case tick today i bt of Inl e \<Rightarrow> Inl e | Inr bt1 \<Rightarrow> run_ticks today is bt1)"

text \<open>
  The loop that closes what is still open after the last candle. It iterates over
  \<open>self.strategy.positions\<close>, builds the dictionary (with its division) and then
  updates the risk manager and the trade log. The equity curve is not touched.
\<close>

fun close_remaining ::
  "int \<Rightarrow> real \<Rightarrow> datetime \<Rightarrow> Position list \<Rightarrow> 'r Backtester \<Rightarrow> error + 'r Backtester" where
  "close_remaining today final_price final_time [] bt = Inr bt"
| "close_remaining today final_price final_time (p # ps) bt =
     (let gain = get_pnl p final_price
      in case truediv gain (entry_price p * quantity p) of
           Inl e \<Rightarrow> Inl e
         | Inr ratio \<Rightarrow>
             let closed_pos =
                   \<lparr>trade_entry_price = entry_price p, exit_price = final_price,
                    trade_quantity = quantity p, pnl = gain, pnl_percent = ratio * 100,
                    trade_entry_time = entry_time p, exit_time = final_time,
                    exit_reason = ''Backtest End''\<rparr>
             in case update_balance today (risk_manager bt) gain final_time of
                  Inl e \<Rightarrow> Inl e
                | Inr rm \<Rightarrow>
                    close_remaining today final_price final_time ps
                      (bt\<lparr>risk_manager := rm, trades_log := trades_log bt @ [closed_pos]\<rparr>))"

text \<open>\<open>np.maximum.accumulate\<close>: the running maximum of an array.\<close>

fun maximum_accumulate_from :: "real \<Rightarrow> real list \<Rightarrow> real list" where
  "maximum_accumulate_from m [] = []"
| "maximum_accumulate_from m (x # xs) = (let m1 = max m x in m1 # maximum_accumulate_from m1 xs)"

definition maximum_accumulate :: "real list \<Rightarrow> real list" where
  "maximum_accumulate xs = (case xs of [] \<Rightarrow> [] | x # rest \<Rightarrow> x # maximum_accumulate_from x rest)"

text \<open>
  The drawdown is an array division: where the running maximum is zero numpy yields NaN
  or an infinity and warns, which is the outcome \<open>NonFinite\<close>. The minimum is taken of
  a non-empty array.
\<close>

definition calculate_max_drawdown :: "'r Backtester \<Rightarrow> error + real" where
  "calculate_max_drawdown bt =
     (if equity_curve bt = [] then Inr 0
      else let equity_array = equity_curve bt;
               running_max = maximum_accumulate equity_array
           in if list_ex (\<lambda>m. m = 0) running_max then Inl NonFinite
              else let drawdown = map (\<lambda>(e, m). (e - m) / m * 100) (zip equity_array running_max)
                   in case series_min drawdown of
                        None \<Rightarrow> Inl ValueError
                      | Some lowest \<Rightarrow> Inr \<bar>lowest\<bar>)"

text \<open>
  The metrics are a dictionary; the model keeps it as the list of its items, in the
  order the source writes them, and \<^const>\<open>map_of\<close> reads a key. The builtin \<open>sum\<close>
  adds from the left, starting at 0.
\<close>

definition py_sum :: "real list \<Rightarrow> real" where
  "py_sum xs = foldl (+) 0 xs"

definition calculate_performance_metrics :: "'r Backtester \<Rightarrow> error + (string \<times> real) list" where
  "calculate_performance_metrics bt =
     (if trades_log bt = [] then
        Inr [(''total_trades'', 0), (''win_rate'', 0), (''profit_factor'', 0),
             (''max_drawdown'', 0), (''final_balance'', bt_initial_balance bt),
             (''total_return'', 0), (''avg_win'', 0), (''avg_loss'', 0)]
      else
        let winning_trades = filter (\<lambda>t. pnl t > 0) (trades_log bt);
            losing_trades = filter (\<lambda>t. pnl t \<le> 0) (trades_log bt);
            total_trades = length (trades_log bt);
            win_rate = (if total_trades > 0
                        then real (length winning_trades) / real total_trades * 100 else 0);
            total_wins = (if winning_trades \<noteq> [] then py_sum (map pnl winning_trades) else 0);
            total_losses = (if losing_trades \<noteq> [] then \<bar>py_sum (map pnl losing_trades)\<bar> else 0);
            profit_factor = (if total_losses > 0 then total_wins / total_losses else 0);
            avg_win = (if winning_trades \<noteq> [] then total_wins / real (length winning_trades)
                       else 0);
            avg_loss = (if losing_trades \<noteq> [] then total_losses / real (length losing_trades)
                        else 0)
        in case calculate_max_drawdown bt of
             Inl e \<Rightarrow> Inl e
           | Inr max_drawdown \<Rightarrow>
               let final_balance = current_balance (risk_manager bt)
               in case truediv (final_balance - bt_initial_balance bt) (bt_initial_balance bt) of
                    Inl e \<Rightarrow> Inl e
                  | Inr ratio \<Rightarrow>
                      Inr [(''total_trades'', real total_trades),
                           (''winning_trades'', real (length winning_trades)),
                           (''losing_trades'', real (length losing_trades)),
                           (''win_rate'', win_rate),
                           (''profit_factor'', profit_factor),
                           (''max_drawdown'', max_drawdown),
                           (''initial_balance'', bt_initial_balance bt),
                           (''final_balance'', final_balance),
                           (''total_return'', ratio * 100),
                           (''avg_win'', avg_win),
                           (''avg_loss'', avg_loss),
                           (''total_pnl'', final_balance - bt_initial_balance bt)])"

text \<open>
  \<open>run\<close> returns the metrics; the model returns them with the backtester as \<open>run\<close>
  leaves it. The final price and time are read with \<open>iloc[-1]\<close> whatever the number of
  rows.
\<close>

definition run ::
  "int \<Rightarrow> candle Backtester \<Rightarrow> error + ((string \<times> real) list \<times> candle_ema Backtester)" where
  "run today bt =
     (case add_emas (data bt) EMA_SHORT EMA_LONG of
        Inl e \<Rightarrow> Inl e
      | Inr rows \<Rightarrow>
          (case run_ticks today [0 ..< length rows] (set_data bt rows) of
             Inl e \<Rightarrow> Inl e
           | Inr bt1 \<Rightarrow>
               (case iloc_last (data bt1) of
                  Inl e \<Rightarrow> Inl e
                | Inr final_row \<Rightarrow>
                    (case close_remaining today (close final_row) (timestamp final_row)
                            (positions (strategy bt1)) bt1 of
                       Inl e \<Rightarrow> Inl e
                     | Inr bt2 \<Rightarrow>
                         let bt3 = bt2\<lparr>strategy := (strategy bt2)\<lparr>positions := []\<rparr>\<rparr>
                         in case calculate_performance_metrics bt3 of
                              Inl e \<Rightarrow> Inl e
                            | Inr metrics \<Rightarrow> Inr (metrics, bt3)))))"


section \<open>Sample data\<close>

text \<open>
  A candle for the examples: candle number \<open>i\<close> of day 738000, one minute after the
  one before, opening and closing at \<open>price\<close>, with the given low and a high of
  \<open>price + 1\<close>.
\<close>

definition sample_candle :: "nat \<Rightarrow> real \<Rightarrow> real \<Rightarrow> candle" where
  "sample_candle i price lowest =
     \<lparr>timestamp = \<lparr>day_ordinal = 738000, second_of_day = 60 * i\<rparr>, open_price = price,
      high = price + 1, low = lowest, close = price, volume = 1000\<rparr>"

text \<open>
  Fifty flat candles at 100, then a candle at 100.5 and a last one at 101: the shortest
  kind of series on which the strategy enters (the warm-up is \<open>EMA_LONG = 50\<close>
  candles). The rows \<open>add_emas\<close> makes of it, the backtester after the 52 ticks (two
  positions open, no trade yet), and the backtester and the metrics \<open>run\<close> returns.
\<close>

definition sample_candles :: "candle list" where
  "sample_candles =
     map (\<lambda>i. sample_candle i 100 99) [0 ..< 50]
       @ [sample_candle 50 (201 / 2) 99, sample_candle 51 101 99]"

definition sample_rows :: "candle_ema list" where
  "sample_rows =
     map (\<lambda>i. with_emas (sample_candle i 100 99) 100 100) [0 ..< 50]
       @ [with_emas (sample_candle 50 (201 / 2) 99) (2101 / 21) (5101 / 51),
          with_emas (sample_candle 51 101 99) (44161 / 441) (260251 / 2601)]"

definition sample_after_ticks :: "candle_ema Backtester" where
  "sample_after_ticks =
     \<lparr>data = sample_rows, bt_initial_balance = 10000,
      strategy =
        \<lparr>positions =
           [\<lparr>entry_price = 201 / 2, quantity = 200 / 3, stop_loss = 9999 / 100,
             take_profit = 207 / 2,
             entry_time = \<lparr>day_ordinal = 738000, second_of_day = 3000\<rparr>,
             trailing_stop_active = True, highest_price = 101\<rparr>,
            \<lparr>entry_price = 101, quantity = 50, stop_loss = 99, take_profit = 105,
             entry_time = \<lparr>day_ordinal = 738000, second_of_day = 3060\<rparr>,
             trailing_stop_active = False, highest_price = 101\<rparr>],
         closed_positions = []\<rparr>,
      risk_manager = RiskManager_init 739000 10000, trades_log = [],
      equity_curve = replicate 52 10000\<rparr>"

definition sample_final :: "candle_ema Backtester" where
  "sample_final =
     \<lparr>data = sample_rows, bt_initial_balance = 10000,
      strategy = \<lparr>positions = [], closed_positions = []\<rparr>,
      risk_manager =
        \<lparr>initial_balance = 10000, current_balance = 30100 / 3,
         daily_start_balance = 30100 / 3, daily_pnl = 0, current_date = 739000,
         trading_halted = False, halt_reason = NoReason\<rparr>,
      trades_log =
        [\<lparr>trade_entry_price = 201 / 2, exit_price = 101, trade_quantity = 200 / 3,
          pnl = 100 / 3, pnl_percent = 100 / 201,
          trade_entry_time = \<lparr>day_ordinal = 738000, second_of_day = 3000\<rparr>,
          exit_time = \<lparr>day_ordinal = 738000, second_of_day = 3060\<rparr>,
          exit_reason = ''Backtest End''\<rparr>,
         \<lparr>trade_entry_price = 101, exit_price = 101, trade_quantity = 50, pnl = 0,
          pnl_percent = 0,
          trade_entry_time = \<lparr>day_ordinal = 738000, second_of_day = 3060\<rparr>,
          exit_time = \<lparr>day_ordinal = 738000, second_of_day = 3060\<rparr>,
          exit_reason = ''Backtest End''\<rparr>],
      equity_curve = replicate 52 10000\<rparr>"

definition sample_metrics :: "(string \<times> real) list" where
  "sample_metrics =
     [(''total_trades'', 2), (''winning_trades'', 1), (''losing_trades'', 1),
      (''win_rate'', 50), (''profit_factor'', 0), (''max_drawdown'', 0),
      (''initial_balance'', 10000), (''final_balance'', 30100 / 3),
      (''total_return'', 1 / 3), (''avg_win'', 100 / 3), (''avg_loss'', 0),
      (''total_pnl'', 100 / 3)]"

text \<open>Twelve candles whose two oldest lows lie below every low of the last ten.\<close>

definition sample_history :: "candle list" where
  "sample_history =
     map (\<lambda>(i, lowest). sample_candle i 100 lowest)
       [(0, 50), (1, 60), (2, 95), (3, 96), (4, 97), (5, 98), (6, 99), (7, 95), (8, 96),
        (9, 97), (10, 98), (11, 99)]"


section \<open>Properties of the indicators\<close>

lemma near_ema_unfold:
  "is_price_near_ema price ema t \<longleftrightarrow> ema * (1 - t) \<le> price \<and> price \<le> ema * (1 + t)"
  by (simp add: is_price_near_ema_def Let_def)

text \<open>
  Claim C3, as stated, at a negative level: with \<open>ema = -1\<close> and tolerance \<open>1/2\<close> the
  band is \<open>[-1/2, -3/2]\<close>, which is empty, so the level itself is not near itself.
  All the numbers are exact binary floats.
\<close>

theorem C3_negative_ema_counterexample:
  "\<not> is_price_near_ema (- 1) (- 1) (1 / 2)"
  by (simp add: near_ema_unfold)

text \<open>
  Claim C3, amended: for every level \<open>ema \<ge> 0\<close> and every tolerance \<open>t \<ge> 0\<close>, the
  level itself and both boundary prices \<open>ema\<cdot>(1 - t)\<close> and \<open>ema\<cdot>(1 + t)\<close> are near the
  level (the band is closed on both sides).
\<close>

theorem C3_near_ema_inclusive:
  assumes "0 \<le> ema" and "0 \<le> t"
  shows "is_price_near_ema ema ema t
       \<and> is_price_near_ema (ema * (1 - t)) ema t
       \<and> is_price_near_ema (ema * (1 + t)) ema t"
proof -
  have prod: "0 \<le> ema * t" using assms by simp
  have lo: "ema * (1 - t) \<le> ema" using prod by (simp add: algebra_simps)
  have hi: "ema \<le> ema * (1 + t)" using prod by (simp add: algebra_simps)
  from lo hi show ?thesis unfolding near_ema_unfold by linarith
qed

theorem C3_near_ema_inclusive_witness:
  "(0::real) \<le> 100 \<and> (0::real) \<le> 1 / 100
   \<and> is_price_near_ema 100 100 (1 / 100)
   \<and> is_price_near_ema (100 * (1 - 1 / 100)) 100 (1 / 100)
   \<and> is_price_near_ema (100 * (1 + 1 / 100)) 100 (1 / 100)"
  using C3_near_ema_inclusive [of 100 "1 / 100"] by simp

section \<open>Properties of the risk manager\<close>

text \<open>
  While the stored date is the date of the timestamps, \<open>update_balance\<close> does not
  reset: the day's starting balance stays and a halt, once set, stays.
\<close>

lemma update_balance_same_date:
  assumes "date current_time = current_date rm"
      and "update_balance today rm amount current_time = Inr rm1"
  shows "daily_start_balance rm1 = daily_start_balance rm
       \<and> current_date rm1 = current_date rm
       \<and> (trading_halted rm \<longrightarrow> trading_halted rm1)"
  using assms
  by (auto simp: update_balance_def check_daily_loss_limit_def Let_def truediv_def
      split: if_splits sum.splits)

text \<open>
  Claim C1 on the code: a backtest replays candles of a past day (here ordinal 738000)
  while the wall clock reads another day (739000). The first update loses 4 percent and
  halts trading. \<open>reset_daily_tracking\<close> stores \<open>date.today()\<close>, not the date of the
  timestamp, so the second update, one minute later on the same calendar date, finds the
  dates different again: it resets a second time, snapshots 9600 as the day's starting
  balance and clears the halt.
\<close>

theorem C1_reset_repeats_within_one_date:
  "update_balance 739000 (RiskManager_init 739000 10000) (- 400)
      \<lparr>day_ordinal = 738000, second_of_day = 3600\<rparr>
     = Inr \<lparr>initial_balance = 10000, current_balance = 9600, daily_start_balance = 10000,
            daily_pnl = - 400, current_date = 739000, trading_halted = True,
            halt_reason = DailyLossLimitReached (- 4)\<rparr>
 \<and> date \<lparr>day_ordinal = 738000, second_of_day = 3660\<rparr>
     = date \<lparr>day_ordinal = 738000, second_of_day = 3600\<rparr>
 \<and> update_balance 739000
      \<lparr>initial_balance = 10000, current_balance = 9600, daily_start_balance = 10000,
       daily_pnl = - 400, current_date = 739000, trading_halted = True,
       halt_reason = DailyLossLimitReached (- 4)\<rparr>
      0 \<lparr>day_ordinal = 738000, second_of_day = 3660\<rparr>
     = Inr \<lparr>initial_balance = 10000, current_balance = 9600, daily_start_balance = 9600,
            daily_pnl = 0, current_date = 739000, trading_halted = False,
            halt_reason = NoReason\<rparr>"
  by (simp add: update_balance_def check_daily_loss_limit_def reset_daily_tracking_def
      RiskManager_init_def truediv_def date_def MAX_DAILY_LOSS_def Let_def)

text \<open>
  Claim C4 on the code: a manager that starts with 100 loses 100 on day 738000, which
  leaves the balance at zero. The first update of the next day resets the daily
  tracking, snapshots the zero balance as \<open>daily_start_balance\<close>, and the daily-loss
  check divides by it: \<open>ZeroDivisionError\<close>. The wall clock agrees with the timestamps
  here, as it does in live trading.
\<close>

theorem C4_daily_loss_check_divides_by_zero:
  "update_balance 738000 (RiskManager_init 738000 100) (- 100)
      \<lparr>day_ordinal = 738000, second_of_day = 0\<rparr>
     = Inr \<lparr>initial_balance = 100, current_balance = 0, daily_start_balance = 100,
            daily_pnl = - 100, current_date = 738000, trading_halted = True,
            halt_reason = DailyLossLimitReached (- 100)\<rparr>
 \<and> update_balance 738001
      \<lparr>initial_balance = 100, current_balance = 0, daily_start_balance = 100,
       daily_pnl = - 100, current_date = 738000, trading_halted = True,
       halt_reason = DailyLossLimitReached (- 100)\<rparr>
      0 \<lparr>day_ordinal = 738001, second_of_day = 0\<rparr>
     = Inl ZeroDivisionError"
  by (simp add: update_balance_def check_daily_loss_limit_def reset_daily_tracking_def
      RiskManager_init_def truediv_def date_def MAX_DAILY_LOSS_def Let_def)


section \<open>Properties of a position\<close>

lemma update_trailing_stop_mono:
  "stop_loss p \<le> stop_loss (update_trailing_stop p price pct)"
  by (simp add: update_trailing_stop_def Let_def)

text \<open>
  Claim C5: along any sequence of \<open>update_trailing_stop\<close> calls, with arbitrary prices
  and trailing percentages, from any position, each stop-loss is at least the one before
  it: the successive stop-loss values form a non-decreasing list.
\<close>

theorem C5_trailing_stop_never_decreases:
  "sorted_wrt (\<le>) (map stop_loss (trailing_trace p calls))"
proof (induction calls arbitrary: p)
  case Nil
  show ?case by simp
next
  case (Cons c calls)
  obtain price pct where c: "c = (price, pct)" by (cases c)
  let ?q = "update_trailing_stop p price pct"
  have step: "stop_loss p \<le> stop_loss ?q" by (rule update_trailing_stop_mono)
  have tail: "sorted_wrt (\<le>) (map stop_loss (trailing_trace ?q calls))" by (rule Cons.IH)
  have head: "trailing_trace ?q calls = ?q # tl (trailing_trace ?q calls)"
    by (cases calls) auto
  have "\<forall>s \<in> set (map stop_loss (trailing_trace ?q calls)). stop_loss ?q \<le> s"
    using tail by (subst (asm) head, subst head) auto
  then have "\<forall>s \<in> set (map stop_loss (trailing_trace ?q calls)). stop_loss p \<le> s"
    using step by force
  with tail show ?case by (simp add: c)
qed

text \<open>
  Claim C6: \<open>should_exit\<close> answers \<open>(True, "Stop Loss")\<close> when the price is at or below
  the stop-loss; otherwise \<open>(True, "Take Profit")\<close> when the price is at or above the
  take-profit; otherwise \<open>(False, "")\<close>. When both tests hold, the stop-loss wins.
\<close>

theorem C6_should_exit_precedence:
  "(price \<le> stop_loss p \<longrightarrow> should_exit p price = (True, ''Stop Loss''))
 \<and> (\<not> price \<le> stop_loss p \<and> price \<ge> take_profit p \<longrightarrow>
      should_exit p price = (True, ''Take Profit''))
 \<and> (\<not> price \<le> stop_loss p \<and> \<not> price \<ge> take_profit p \<longrightarrow>
      should_exit p price = (False, ''''))
 \<and> (price \<le> stop_loss p \<and> price \<ge> take_profit p \<longrightarrow>
      should_exit p price = (True, ''Stop Loss''))"
  by (simp add: should_exit_def)

text \<open>
  The position of the repository's own test (entry 50000, quantity 1/10, stop-loss 49000,
  take-profit 52000) at the three prices the test uses, and a position whose stop-loss
  lies above its take-profit, at a price where both tests hold at once.
\<close>

theorem C6_should_exit_precedence_witness:
  "(48900 \<le> stop_loss (Position_init 50000 (1 / 10) 49000 52000 \<lparr>day_ordinal = 738000, second_of_day = 0\<rparr>)
      \<and> should_exit (Position_init 50000 (1 / 10) 49000 52000 \<lparr>day_ordinal = 738000, second_of_day = 0\<rparr>) 48900
          = (True, ''Stop Loss''))
 \<and> (\<not> 52100 \<le> stop_loss (Position_init 50000 (1 / 10) 49000 52000 \<lparr>day_ordinal = 738000, second_of_day = 0\<rparr>)
      \<and> 52100 \<ge> take_profit (Position_init 50000 (1 / 10) 49000 52000 \<lparr>day_ordinal = 738000, second_of_day = 0\<rparr>)
      \<and> should_exit (Position_init 50000 (1 / 10) 49000 52000 \<lparr>day_ordinal = 738000, second_of_day = 0\<rparr>) 52100
          = (True, ''Take Profit''))
 \<and> (\<not> 50500 \<le> stop_loss (Position_init 50000 (1 / 10) 49000 52000 \<lparr>day_ordinal = 738000, second_of_day = 0\<rparr>)
      \<and> \<not> 50500 \<ge> take_profit (Position_init 50000 (1 / 10) 49000 52000 \<lparr>day_ordinal = 738000, second_of_day = 0\<rparr>)
      \<and> should_exit (Position_init 50000 (1 / 10) 49000 52000 \<lparr>day_ordinal = 738000, second_of_day = 0\<rparr>) 50500
          = (False, ''''))
 \<and> (115 \<le> stop_loss (Position_init 100 1 120 110 \<lparr>day_ordinal = 738000, second_of_day = 0\<rparr>)
      \<and> 115 \<ge> take_profit (Position_init 100 1 120 110 \<lparr>day_ordinal = 738000, second_of_day = 0\<rparr>)
      \<and> should_exit (Position_init 100 1 120 110 \<lparr>day_ordinal = 738000, second_of_day = 0\<rparr>) 115
          = (True, ''Stop Loss''))"
  using C6_should_exit_precedence
          [of 48900 "Position_init 50000 (1 / 10) 49000 52000 \<lparr>day_ordinal = 738000, second_of_day = 0\<rparr>"]
        C6_should_exit_precedence
          [of 52100 "Position_init 50000 (1 / 10) 49000 52000 \<lparr>day_ordinal = 738000, second_of_day = 0\<rparr>"]
        C6_should_exit_precedence
          [of 50500 "Position_init 50000 (1 / 10) 49000 52000 \<lparr>day_ordinal = 738000, second_of_day = 0\<rparr>"]
        C6_should_exit_precedence
          [of 115 "Position_init 100 1 120 110 \<lparr>day_ordinal = 738000, second_of_day = 0\<rparr>"]
  by (simp add: Position_init_def)

section \<open>Properties of the exponential moving average\<close>

lemma length_ewm_from: "length (ewm_from a prev xs) = length xs"
  by (induction xs arbitrary: prev) (auto simp: Let_def)

lemma ewm_from_nth:
  "i < length xs \<Longrightarrow>
     ewm_from a prev xs ! i = a * xs ! i + (1 - a) * (if i = 0 then prev else ewm_from a prev xs ! (i - 1))"
proof (induction xs arbitrary: prev i)
  case Nil then show ?case by simp
next
  case (Cons x xs)
  show ?case
  proof (cases i)
    case 0 then show ?thesis by (simp add: Let_def algebra_simps)
  next
    case (Suc j)
    then have j: "j < length xs" using Cons.prems by simp
    show ?thesis using Cons.IH [OF j, of "(1 - a) * prev + a * x"] Suc
      by (cases j) (simp_all add: Let_def)
  qed
qed

text \<open>
  Claim C7: for a non-empty price series and a period above zero, \<open>calculate_ema\<close>
  returns a series of the same length whose first value is the first price and whose
  every later value is \<open>smoothing\<cdot>price + (1 - smoothing)\<cdot>previous value\<close>, with
  \<open>smoothing = 2 / (period + 1)\<close>.
\<close>

theorem C7_calculate_ema_recurrence:
  assumes "series \<noteq> []" and "0 < period"
  shows "\<exists>ema. calculate_ema series period = Inr ema
           \<and> length ema = length series
           \<and> ema ! 0 = series ! 0
           \<and> (\<forall>i. 0 < i \<and> i < length series \<longrightarrow>
                 ema ! i = (2 / (real_of_int period + 1)) * series ! i
                         + (1 - 2 / (real_of_int period + 1)) * ema ! (i - 1))"
proof -
  obtain x rest where d: "series = x # rest" using assms(1) by (cases series) auto
  let ?a = "2 / (real_of_int period + 1)"
  let ?ema = "x # ewm_from ?a x rest"
  have r: "calculate_ema series period = Inr ?ema"
    using assms(2) by (simp add: calculate_ema_def ewm_mean_def d Let_def)
  have l: "length ?ema = length series" by (simp add: d length_ewm_from)
  have rec: "?ema ! i = ?a * series ! i + (1 - ?a) * ?ema ! (i - 1)" if "0 < i" "i < length series" for i
  proof -
    from that(1) obtain j where i: "i = Suc j" by (cases i) auto
    have j: "j < length rest" using that(2) i d by simp
    show ?thesis using ewm_from_nth [OF j, of ?a x] by (cases j) (simp_all add: i d)
  qed
  show ?thesis using r l rec by (intro exI [of _ ?ema]) (simp add: d)
qed

text \<open>The series 100, 121 with period 20: the smoothing is 2/21 and the second value 102.\<close>

theorem C7_calculate_ema_recurrence_witness:
  "[100, 121 :: real] \<noteq> [] \<and> (0::int) < 20
   \<and> calculate_ema [100, 121] 20 = Inr [100, 102]
   \<and> length [100, 102 :: real] = length [100, 121 :: real]
   \<and> [100, 102 :: real] ! 1 = 2 / (real_of_int 20 + 1) * [100, 121] ! 1
         + (1 - 2 / (real_of_int 20 + 1)) * [100, 102] ! (1 - 1)"
  using C7_calculate_ema_recurrence [of "[100, 121]" 20]
  by (simp add: calculate_ema_def ewm_mean_def Let_def)

section \<open>Properties of the strategy\<close>

lemma series_min_Min:
  assumes "xs \<noteq> []"
  shows "series_min xs = Some (Min (set xs))"
proof (cases xs)
  case Nil
  with assms show ?thesis by simp
next
  case (Cons x rest)
  have "fold min rest x = Min (set (x # rest))" by (rule Min.set_eq_fold [symmetric])
  then show ?thesis by (simp add: series_min_def Cons)
qed

lemma find_swing_low_10:
  assumes "df \<noteq> []"
  shows "find_swing_low df 10
           = Some (Min (set (map low (drop (length df - min 10 (length df)) df))))"
proof -
  let ?k = "min 10 (length df)"
  have pos: "0 < length df" using assms by simp
  have lb: "(if int (length df) < 10 then int (length df) else 10) = int ?k" by auto
  have k: "0 < ?k" "?k \<le> length df" using pos by auto
  have win: "iloc_from (- int ?k) (map low df) = map low (drop (length df - ?k) df)"
  proof -
    have "nat (max 0 (int (length df) - int ?k)) = length df - ?k" by linarith
    moreover have "- int ?k < 0" using k(1) by linarith
    ultimately show ?thesis by (simp add: iloc_from_def drop_map)
  qed
  have "length df - ?k < length df" using k by linarith
  then have ne: "map low (drop (length df - ?k) df) \<noteq> []" by simp
  show ?thesis
    unfolding find_swing_low_def Let_def lb win using series_min_Min [OF ne] by simp
qed

text \<open>
  Claim C8: on a non-empty history, \<open>open_position\<close> takes as stop-loss the least
  \<open>low\<close> of the last \<open>min 10 (length history)\<close> candles, or 98 percent of the entry
  price when that swing low is not below the entry price; the take-profit is the entry
  price plus \<open>RISK_REWARD_RATIO\<close> times the distance to the stop; the quantity is
  \<open>account_balance \<cdot> risk_percent\<close> divided by the absolute distance. It returns no
  position and leaves the strategy as it was when \<open>MAX_POSITIONS\<close> are open, when the
  distance is zero or when the quantity is not positive; otherwise it returns the
  position and appends it to the open positions.
\<close>

theorem C8_open_position:
  assumes "df \<noteq> []"
  shows "open_position s entry account_balance risk_percent df etime =
     (let window = drop (length df - min 10 (length df)) df;
          swing = Min (set (map low window));
          stop = (if swing \<ge> entry then entry * (98 / 100) else swing);
          target = entry + (entry - stop) * RISK_REWARD_RATIO;
          qty = (account_balance * risk_percent) / \<bar>entry - stop\<bar>
      in if length (positions s) \<ge> MAX_POSITIONS \<or> entry - stop = 0 \<or> qty \<le> 0
         then Inr (None, s)
         else Inr (Some \<lparr>entry_price = entry, quantity = qty, stop_loss = stop,
                          take_profit = target, entry_time = etime,
                          trailing_stop_active = False, highest_price = entry\<rparr>,
                   s\<lparr>positions := positions s @
                        [\<lparr>entry_price = entry, quantity = qty, stop_loss = stop,
                          take_profit = target, entry_time = etime,
                          trailing_stop_active = False, highest_price = entry\<rparr>]\<rparr>))"
proof -
  define swing where "swing = Min (set (map low (drop (length df - min 10 (length df)) df)))"
  define stop where "stop = (if swing \<ge> entry then entry * (98 / 100) else swing)"
  have sw: "find_swing_low df 10 = Some swing"
    unfolding swing_def by (rule find_swing_low_10 [OF assms])
  have size: "calculate_position_size entry stop account_balance risk_percent
                = (if entry - stop = 0 then 0 else (account_balance * risk_percent) / \<bar>entry - stop\<bar>)"
    by (simp add: calculate_position_size_def Let_def)
  have zero: "entry - stop = 0 \<Longrightarrow> (account_balance * risk_percent) / \<bar>entry - stop\<bar> \<le> 0"
    by simp
  show ?thesis
    unfolding open_position_def sw option.case Let_def swing_def [symmetric] stop_def [symmetric]
      size can_open_position_def Position_init_def
    using zero by (cases "entry - stop = 0") (simp_all add: not_less)
qed

text \<open>
  On the twelve sample candles the swing low is 95, the least low of the last ten, not
  the 50 of the oldest candle: stop 95, target 110, quantity 100 / 5.
\<close>

theorem C8_open_position_witness:
  "sample_history \<noteq> []
   \<and> open_position TradingStrategy_init 100 10000 (1 / 100) sample_history
        \<lparr>day_ordinal = 738000, second_of_day = 720\<rparr>
       = Inr (Some \<lparr>entry_price = 100, quantity = 20, stop_loss = 95, take_profit = 110,
                     entry_time = \<lparr>day_ordinal = 738000, second_of_day = 720\<rparr>,
                     trailing_stop_active = False, highest_price = 100\<rparr>,
              \<lparr>positions =
                 [\<lparr>entry_price = 100, quantity = 20, stop_loss = 95, take_profit = 110,
                   entry_time = \<lparr>day_ordinal = 738000, second_of_day = 720\<rparr>,
                   trailing_stop_active = False, highest_price = 100\<rparr>],
               closed_positions = []\<rparr>)"
  using C8_open_position [of sample_history TradingStrategy_init 100 10000 "1 / 100"
          "\<lparr>day_ordinal = 738000, second_of_day = 720\<rparr>"]
  by (simp add: sample_history_def sample_candle_def TradingStrategy_init_def
      RISK_REWARD_RATIO_def MAX_POSITIONS_def Let_def)

section \<open>Properties of the backtester\<close>

subsection \<open>The sample run, evaluated\<close>

text \<open>Unrolling \<open>[0 ..< n]\<close> and \<open>replicate n x\<close> for a numeral \<open>n\<close>, one element at a time.\<close>

lemma upt_0_numeral: "[0 ..< numeral n] = 0 # [Suc 0 ..< numeral n]"
  by (simp add: upt_rec [of 0])

lemma upt_1_numeral:
  "[Suc 0 ..< numeral n] = (if Suc 0 < numeral n then Suc 0 # [2 ..< numeral n] else [])"
  using upt_rec [of "Suc 0" "numeral n"] by (simp add: numeral_2_eq_2)

lemma replicate_numeral: "replicate (numeral n) x = x # replicate (pred_numeral n) x"
  by (simp add: numeral_eq_Suc)

lemma sample_emas: "add_emas sample_candles EMA_SHORT EMA_LONG = Inr sample_rows"
  by (simp add: sample_candles_def sample_rows_def add_emas_def calculate_ema_def ewm_mean_def
      EMA_SHORT_def EMA_LONG_def upt_0_numeral upt_1_numeral sample_candle_def with_emas_def
      Let_def)

lemma sample_ticks:
  "run_ticks 739000 [0 ..< 52] (set_data (Backtester_init 739000 sample_candles 10000) sample_rows)
     = Inr sample_after_ticks"
  by (simp add: upt_0_numeral upt_1_numeral sample_rows_def sample_after_ticks_def set_data_def
      Backtester_init_def tick_def update_positions_def TradingStrategy_init_def can_trade_def
      RiskManager_init_def Let_def sample_candle_def with_emas_def EMA_LONG_def
      check_entry_signal_def iloc_last_def is_uptrend_def is_price_near_ema_def
      ENTRY_PRICE_TOLERANCE_def open_position_def can_open_position_def MAX_POSITIONS_def
      find_swing_low_def iloc_from_def series_min_def RISK_REWARD_RATIO_def
      calculate_position_size_def RISK_PER_TRADE_def Position_init_def update_trailing_stop_def
      TRAILING_STOP_PERCENT_def should_exit_def replicate_numeral)

lemma sample_length: "length sample_rows = 52" "length sample_candles = 52"
  by (simp_all add: sample_rows_def sample_candles_def)

lemma sample_closing:
  "close_remaining 739000 101 \<lparr>day_ordinal = 738000, second_of_day = 3060\<rparr>
      (positions (strategy sample_after_ticks)) sample_after_ticks
     = Inr (sample_final\<lparr>strategy := strategy sample_after_ticks\<rparr>)"
  by (simp add: sample_after_ticks_def sample_final_def Let_def get_pnl_def truediv_def
      update_balance_def check_daily_loss_limit_def reset_daily_tracking_def
      RiskManager_init_def date_def MAX_DAILY_LOSS_def)

lemma sample_last:
  "iloc_last (data sample_after_ticks) = Inr (with_emas (sample_candle 51 101 99) (44161 / 441) (260251 / 2601))"
  by (simp add: sample_after_ticks_def sample_rows_def iloc_last_def)

lemma sample_metrics_value: "calculate_performance_metrics sample_final = Inr sample_metrics"
  by (simp add: calculate_performance_metrics_def sample_final_def sample_metrics_def Let_def
      py_sum_def calculate_max_drawdown_def maximum_accumulate_def replicate_numeral series_min_def
      truediv_def)

lemma sample_run:
  "run 739000 (Backtester_init 739000 sample_candles 10000) = Inr (sample_metrics, sample_final)"
proof -
  have d: "data (Backtester_init 739000 sample_candles 10000) = sample_candles"
    by (simp add: Backtester_init_def)
  have fin: "sample_final\<lparr>strategy := (strategy sample_after_ticks)\<lparr>positions := []\<rparr>\<rparr> = sample_final"
    by (simp add: sample_final_def sample_after_ticks_def)
  show ?thesis
    unfolding run_def d sample_emas sum.case sample_length sample_ticks sample_last
    by (simp add: with_emas_def sample_candle_def sample_closing fin sample_metrics_value Let_def)
qed

subsection \<open>The run and its metrics\<close>

text \<open>
  Claim C2 on the code: with no candle the loop runs zero times, and \<open>run\<close> then reads
  the final price with \<open>self.data.iloc[-1]\<close>, which raises \<open>IndexError\<close>; the
  empty-log metrics are never reached.
\<close>

theorem C2_empty_run_raises: "run today (Backtester_init today0 [] balance) = Inl IndexError"
  by (simp add: run_def Backtester_init_def add_emas_def calculate_ema_def ewm_mean_def
      EMA_SHORT_def EMA_LONG_def set_data_def iloc_last_def)

lemma py_sum_eq: "py_sum xs = sum_list xs"
proof -
  have "foldl (+) a xs = a + sum_list xs" for a :: real
    by (induction xs arbitrary: a) simp_all
  then show ?thesis by (simp add: py_sum_def)
qed

lemma drawdown_defined:
  assumes "0 \<notin> set (maximum_accumulate (equity_curve bt))"
  shows "\<exists>d. calculate_max_drawdown bt = Inr d"
proof (cases "equity_curve bt")
  case Nil
  then show ?thesis by (simp add: calculate_max_drawdown_def)
next
  case (Cons e es)
  have nz: "\<not> list_ex (\<lambda>m. m = 0) (maximum_accumulate (equity_curve bt))"
    using assms by (auto simp: list_ex_iff)
  have "series_min (map (\<lambda>(e, m). (e - m) / m * 100)
          (zip (equity_curve bt) (maximum_accumulate (equity_curve bt)))) \<noteq> None"
    by (simp add: Cons series_min_def maximum_accumulate_def)
  then show ?thesis
    using nz by (auto simp: calculate_max_drawdown_def Let_def Cons split: option.splits)
qed

lemma performance_metrics_defined:
  assumes "bt_initial_balance bt \<noteq> 0"
      and "0 \<notin> set (maximum_accumulate (equity_curve bt))"
  shows "\<exists>m. calculate_performance_metrics bt = Inr m"
proof -
  obtain d where d: "calculate_max_drawdown bt = Inr d"
    using drawdown_defined [OF assms(2)] by blast
  show ?thesis
    using assms(1) by (simp add: calculate_performance_metrics_def Let_def d truediv_def)
qed

text \<open>
  Claim C9: whenever the metrics are computed from a non-empty trade log, \<open>win_rate\<close>
  is the number of trades with \<open>pnl > 0\<close> divided by the number of trades, times 100;
  every other trade, a trade with \<open>pnl = 0\<close> included, is counted as losing;
  \<open>profit_factor\<close> is the sum of the winning pnls divided by the absolute value of the
  sum of the other pnls, and 0 when that absolute value is 0. (By
  \<open>performance_metrics_defined\<close> the metrics are returned whenever the initial balance
  is not zero and the running peak of the equity curve is never zero.)
\<close>

theorem C9_win_rate_profit_factor:
  assumes "trades_log bt \<noteq> []"
      and "calculate_performance_metrics bt = Inr m"
  shows "map_of m ''win_rate''
         = Some (real (length (filter (\<lambda>t. pnl t > 0) (trades_log bt)))
                   / real (length (trades_log bt)) * 100)
     \<and> map_of m ''losing_trades''
         = Some (real (length (trades_log bt))
                   - real (length (filter (\<lambda>t. pnl t > 0) (trades_log bt))))
     \<and> map_of m ''profit_factor''
         = Some (if \<bar>\<Sum>t\<leftarrow>filter (\<lambda>t. pnl t \<le> 0) (trades_log bt). pnl t\<bar> = 0 then 0
                 else (\<Sum>t\<leftarrow>filter (\<lambda>t. pnl t > 0) (trades_log bt). pnl t)
                        / \<bar>\<Sum>t\<leftarrow>filter (\<lambda>t. pnl t \<le> 0) (trades_log bt). pnl t\<bar>)"
proof -
  obtain d where d: "calculate_max_drawdown bt = Inr d"
    using assms by (cases "calculate_max_drawdown bt")
      (simp_all add: calculate_performance_metrics_def Let_def)
  have nz: "bt_initial_balance bt \<noteq> 0"
    using assms d by (auto simp: calculate_performance_metrics_def Let_def truediv_def
        split: if_splits)
  have len: "0 < length (trades_log bt)" using assms(1) by simp
  have part: "length (filter (\<lambda>t. pnl t \<le> 0) (trades_log bt))
                = length (trades_log bt) - length (filter (\<lambda>t. pnl t > 0) (trades_log bt))"
    using sum_length_filter_compl [of "\<lambda>t. pnl t > 0" "trades_log bt"]
    by (simp add: not_less)
  have le: "length (filter (\<lambda>t. pnl t > 0) (trades_log bt)) \<le> length (trades_log bt)"
    by (rule length_filter_le)
  have "calculate_performance_metrics bt = Inr m \<longrightarrow> ?thesis"
    using assms(1) nz len le
    by (simp add: calculate_performance_metrics_def Let_def d truediv_def py_sum_eq part
        of_nat_diff) (auto simp: py_sum_eq)
  with assms(2) show ?thesis by blast
qed

text \<open>
  The log of the sample run has one trade with a gain and one with \<open>pnl = 0\<close>: the
  win rate is 50, one trade is counted as losing and the profit factor is 0.
\<close>

theorem C9_win_rate_profit_factor_witness:
  "trades_log sample_final \<noteq> []
   \<and> calculate_performance_metrics sample_final = Inr sample_metrics
   \<and> map pnl (trades_log sample_final) = [100 / 3, 0]
   \<and> map_of sample_metrics ''win_rate'' = Some (real 1 / real 2 * 100)
   \<and> map_of sample_metrics ''losing_trades'' = Some (real 2 - real 1)
   \<and> map_of sample_metrics ''profit_factor'' = Some 0"
proof -
  have h1: "trades_log sample_final \<noteq> []" by (simp add: sample_final_def)
  note h2 = sample_metrics_value
  have log: "map pnl (trades_log sample_final) = [100 / 3, 0]" by (simp add: sample_final_def)
  have f1: "filter (\<lambda>t. 0 < pnl t) (trades_log sample_final) = [hd (trades_log sample_final)]"
    by (simp add: sample_final_def)
  have f2: "filter (\<lambda>t. pnl t \<le> 0) (trades_log sample_final) = tl (trades_log sample_final)"
    by (simp add: sample_final_def)
  have l: "length (trades_log sample_final) = 2" by (simp add: sample_final_def)
  have s2: "(\<Sum>t\<leftarrow>tl (trades_log sample_final). pnl t) = 0" by (simp add: sample_final_def)
  from C9_win_rate_profit_factor [OF h1 h2]
  have "map_of sample_metrics ''win_rate'' = Some (real 1 / real 2 * 100)
      \<and> map_of sample_metrics ''losing_trades'' = Some (real 2 - real 1)
      \<and> map_of sample_metrics ''profit_factor'' = Some 0"
    unfolding f1 f2 l s2 by simp
  with h1 h2 log show ?thesis by blast
qed

lemma report_closed_keeps:
  "report_closed today now cs bt = Inr bt1 \<Longrightarrow>
     equity_curve bt1 = equity_curve bt \<and> data bt1 = data bt"
proof (induction cs arbitrary: bt)
  case Nil
  then show ?case by simp
next
  case (Cons c cs)
  then show ?case by (auto split: sum.splits)
qed

lemma tick_equity:
  assumes "tick today i bt = Inr bt1"
  shows "equity_curve bt1 = equity_curve bt @ [current_balance (risk_manager bt1)]
       \<and> data bt1 = data bt"
  using assms
  by (auto simp: tick_def Let_def split: sum.splits if_splits prod.splits
      dest!: report_closed_keeps)

lemma run_ticks_append:
  "run_ticks today (xs @ ys) bt =
     (case run_ticks today xs bt of Inl e \<Rightarrow> Inl e | Inr b \<Rightarrow> run_ticks today ys b)"
  by (induction xs arbitrary: bt) (auto split: sum.splits)

lemma run_ticks_equity:
  "run_ticks today js bt = Inr bt1 \<Longrightarrow>
     (\<exists>added. equity_curve bt1 = equity_curve bt @ added \<and> length added = length js)
     \<and> data bt1 = data bt"
proof (induction js arbitrary: bt)
  case Nil
  then show ?case by simp
next
  case (Cons j js)
  from Cons.prems obtain b where b: "tick today j bt = Inr b" and r: "run_ticks today js b = Inr bt1"
    by (auto split: sum.splits)
  from Cons.IH [OF r] obtain added where
    a: "equity_curve bt1 = equity_curve b @ added" "length added = length js" "data bt1 = data b"
    by blast
  from tick_equity [OF b] a show ?case by auto
qed

lemma close_remaining_keeps:
  "close_remaining today price now ps bt = Inr bt1 \<Longrightarrow>
     equity_curve bt1 = equity_curve bt \<and> data bt1 = data bt"
proof (induction ps arbitrary: bt)
  case Nil
  then show ?case by simp
next
  case (Cons p ps)
  then show ?case by (auto simp: Let_def split: sum.splits)
qed

lemma run_ticks_entry:
  assumes "run_ticks today [0 ..< n] bt = Inr bt1" and "i < n"
  shows "\<exists>b. run_ticks today [0 ..< Suc i] bt = Inr b
           \<and> equity_curve bt1 ! (length (equity_curve bt) + i) = current_balance (risk_manager b)"
proof -
  have split1: "[0 ..< n] = [0 ..< Suc i] @ [Suc i ..< n]"
    using assms(2) by (metis Suc_leI le0 upt_add_eq_append le_add_diff_inverse)
  have split2: "[0 ..< Suc i] = [0 ..< i] @ [i]" by simp
  from assms(1) obtain b where b: "run_ticks today [0 ..< Suc i] bt = Inr b"
    and rest: "run_ticks today [Suc i ..< n] b = Inr bt1"
    unfolding split1 run_ticks_append by (auto split: sum.splits)
  from b obtain b0 where b0: "run_ticks today [0 ..< i] bt = Inr b0" and t: "tick today i b0 = Inr b"
    unfolding split2 run_ticks_append by (auto split: sum.splits)
  from run_ticks_equity [OF b0] have l0: "length (equity_curve b0) = length (equity_curve bt) + i"
    by auto
  from tick_equity [OF t] have eb: "equity_curve b = equity_curve b0 @ [current_balance (risk_manager b)]"
    by simp
  from run_ticks_equity [OF rest] obtain added where "equity_curve bt1 = equity_curve b @ added"
    by blast
  then have "equity_curve bt1 ! (length (equity_curve bt) + i) = current_balance (risk_manager b)"
    using eb l0 by (simp add: nth_append)
  with b show ?thesis by blast
qed

lemma drawdown_by_curve:
  "equity_curve a = equity_curve b \<Longrightarrow> calculate_max_drawdown a = calculate_max_drawdown b"
  by (simp add: calculate_max_drawdown_def)

lemma add_emas_length: "add_emas df s l = Inr rows \<Longrightarrow> length rows = length df"
proof -
  have len: "ewm_mean p xs = Inr ys \<Longrightarrow> length ys = length xs" for p xs ys
  proof (cases xs)
    case Nil
    assume "ewm_mean p xs = Inr ys"
    with Nil show ?thesis by (auto simp: ewm_mean_def split: if_splits)
  next
    case (Cons x rest)
    have "length (ewm_from a prev zs) = length zs" for a prev zs
      by (induction zs arbitrary: prev) (auto simp: Let_def)
    moreover assume "ewm_mean p xs = Inr ys"
    ultimately show ?thesis using Cons by (auto simp: ewm_mean_def Let_def split: if_splits)
  qed
  assume "add_emas df s l = Inr rows"
  then show ?thesis
    by (auto simp: add_emas_def calculate_ema_def split: sum.splits dest!: len)
qed

text \<open>
  Claim C10: after \<open>run\<close> on a non-empty candle sequence of length N, started with an
  empty equity curve, the curve has exactly N entries; entry \<open>i\<close> is the balance of the
  risk manager at the end of tick \<open>i\<close>, that is after the first \<open>i + 1\<close> ticks; the
  curve is the one the ticks left, the closures at the end of the backtest add nothing
  to it and change nothing in it; and the reported \<open>max_drawdown\<close> is computed from that
  curve (it is 0 when no trade was logged).
\<close>

theorem C10_equity_curve_entries:
  assumes "data bt \<noteq> []" and "equity_curve bt = []"
      and "run today bt = Inr (m, bt2)"
  shows "length (equity_curve bt2) = length (data bt)
     \<and> (\<exists>rows bt1.
           add_emas (data bt) EMA_SHORT EMA_LONG = Inr rows
         \<and> run_ticks today [0 ..< length (data bt)] (set_data bt rows) = Inr bt1
         \<and> equity_curve bt2 = equity_curve bt1
         \<and> (\<forall>i < length (data bt).
               \<exists>b. run_ticks today [0 ..< Suc i] (set_data bt rows) = Inr b
                  \<and> equity_curve bt2 ! i = current_balance (risk_manager b))
         \<and> map_of m ''max_drawdown''
             = (if trades_log bt2 = [] then Some 0
                else (case calculate_max_drawdown bt1 of Inl e \<Rightarrow> None | Inr d \<Rightarrow> Some d)))"
proof -
  obtain rows where rows: "add_emas (data bt) EMA_SHORT EMA_LONG = Inr rows"
    using assms(3) by (cases "add_emas (data bt) EMA_SHORT EMA_LONG") (simp_all add: run_def)
  obtain bt1 where ticks: "run_ticks today [0 ..< length rows] (set_data bt rows) = Inr bt1"
    using assms(3) rows
    by (cases "run_ticks today [0 ..< length rows] (set_data bt rows)") (simp_all add: run_def)
  obtain final_row where final_row: "iloc_last (data bt1) = Inr final_row"
    using assms(3) rows ticks by (cases "iloc_last (data bt1)") (simp_all add: run_def)
  obtain bc where closing: "close_remaining today (close final_row) (timestamp final_row)
                              (positions (strategy bt1)) bt1 = Inr bc"
    using assms(3) rows ticks final_row
    by (cases "close_remaining today (close final_row) (timestamp final_row)
                 (positions (strategy bt1)) bt1") (simp_all add: run_def)
  have fin: "calculate_performance_metrics (bc\<lparr>strategy := (strategy bc)\<lparr>positions := []\<rparr>\<rparr>) = Inr m
           \<and> bt2 = bc\<lparr>strategy := (strategy bc)\<lparr>positions := []\<rparr>\<rparr>"
    using assms(3) rows ticks final_row closing
    by (simp add: run_def Let_def split: sum.splits)
  then have bt2: "bt2 = bc\<lparr>strategy := (strategy bc)\<lparr>positions := []\<rparr>\<rparr>"
    and metrics: "calculate_performance_metrics bt2 = Inr m"
    by simp_all
  have n: "length rows = length (data bt)" by (rule add_emas_length [OF rows])
  have start: "equity_curve (set_data bt rows) = []" by (simp add: set_data_def assms(2))
  from close_remaining_keeps [OF closing] have same: "equity_curve bt2 = equity_curve bt1"
    by (simp add: bt2)
  from run_ticks_equity [OF ticks] have len: "length (equity_curve bt1) = length (data bt)"
    by (auto simp: start n)
  have entries: "\<exists>b. run_ticks today [0 ..< Suc i] (set_data bt rows) = Inr b
                   \<and> equity_curve bt2 ! i = current_balance (risk_manager b)"
    if "i < length (data bt)" for i
    using run_ticks_entry [OF ticks, of i] that by (simp add: start n same)
  have dd: "map_of m ''max_drawdown''
             = (if trades_log bt2 = [] then Some 0
                else (case calculate_max_drawdown bt1 of Inl e \<Rightarrow> None | Inr d \<Rightarrow> Some d))"
    using metrics drawdown_by_curve [OF same]
    by (auto simp: calculate_performance_metrics_def Let_def split: if_splits sum.splits)
  show ?thesis using rows ticks same len entries dd by (simp add: n)
qed

text \<open>
  The sample run: 52 candles, 52 entries, all 10000. The last entry is the balance after
  the last tick; the two closures at the end of the backtest raise the balance to
  30100/3, which no entry of the curve shows, and the drawdown reported is that of the
  flat curve.
\<close>

theorem C10_equity_curve_entries_witness:
  "data (Backtester_init 739000 sample_candles 10000) \<noteq> []
   \<and> equity_curve (Backtester_init 739000 sample_candles 10000) = []
   \<and> run 739000 (Backtester_init 739000 sample_candles 10000) = Inr (sample_metrics, sample_final)
   \<and> length (equity_curve sample_final) = 52
   \<and> equity_curve sample_final = equity_curve sample_after_ticks
   \<and> equity_curve sample_final ! 51 = current_balance (risk_manager sample_after_ticks)
   \<and> current_balance (risk_manager sample_after_ticks) = 10000
   \<and> current_balance (risk_manager sample_final) = 30100 / 3
   \<and> trades_log sample_final \<noteq> []
   \<and> calculate_max_drawdown sample_after_ticks = Inr 0
   \<and> map_of sample_metrics ''max_drawdown'' = Some 0"
proof -
  let ?bt = "Backtester_init 739000 sample_candles 10000"
  have d: "data ?bt = sample_candles" by (simp add: Backtester_init_def)
  have h1: "data ?bt \<noteq> []" unfolding d by (simp add: sample_candles_def)
  have h2: "equity_curve ?bt = []" by (simp add: Backtester_init_def)
  note h3 = sample_run
  from C10_equity_curve_entries [OF h1 h2 h3] obtain rows bt1 where
        len: "length (equity_curve sample_final) = length (data ?bt)"
    and rows: "add_emas (data ?bt) EMA_SHORT EMA_LONG = Inr rows"
    and ticks: "run_ticks 739000 [0 ..< length (data ?bt)] (set_data ?bt rows) = Inr bt1"
    and same: "equity_curve sample_final = equity_curve bt1"
    and entries: "\<forall>i < length (data ?bt).
                    \<exists>b. run_ticks 739000 [0 ..< Suc i] (set_data ?bt rows) = Inr b
                       \<and> equity_curve sample_final ! i = current_balance (risk_manager b)"
    and dd: "map_of sample_metrics ''max_drawdown''
               = (if trades_log sample_final = [] then Some 0
                  else (case calculate_max_drawdown bt1 of Inl e \<Rightarrow> None | Inr d \<Rightarrow> Some d))"
    by blast
  have r: "rows = sample_rows" using rows sample_emas by (simp add: d)
  have b: "bt1 = sample_after_ticks" using ticks sample_ticks by (simp add: d r sample_length)
  have log: "trades_log sample_final \<noteq> []" by (simp add: sample_final_def)
  have last_entry: "equity_curve sample_final ! 51 = current_balance (risk_manager sample_after_ticks)"
  proof -
    have "51 < length (data ?bt)" by (simp add: d sample_length)
    with entries obtain b51 where
      "run_ticks 739000 [0 ..< Suc 51] (set_data ?bt rows) = Inr b51"
      "equity_curve sample_final ! 51 = current_balance (risk_manager b51)"
      by blast
    moreover have "Suc 51 = 52" by simp
    ultimately show ?thesis using sample_ticks by (simp add: r)
  qed
  have bal1: "current_balance (risk_manager sample_after_ticks) = 10000"
    by (simp add: sample_after_ticks_def RiskManager_init_def)
  have bal2: "current_balance (risk_manager sample_final) = 30100 / 3"
    by (simp add: sample_final_def)
  have dd0: "map_of sample_metrics ''max_drawdown'' = Some 0" by (simp add: sample_metrics_def)
  have dd1: "calculate_max_drawdown sample_after_ticks = Inr 0"
    using dd log dd0 by (simp add: b split: sum.splits)
  show ?thesis
    using h1 h2 h3 len same last_entry bal1 bal2 log dd1 dd0 by (simp add: d sample_length b)
qed

end
